theory Spec2Isabelle
  imports Complex_Main
begin

section \<open>The camera rig of \<open>src/components/scene.jsx\<close>\<close>

text \<open>
  The component \<open>CameraRig\<close> keeps a pointer state (\<open>mouse\<close>), three references
  (\<open>initialRotation\<close>, \<open>targetCameraPos\<close>, \<open>originalPosition\<close>) and reads the camera and the
  viewport size of the host. Two event handlers (\<open>handlePointerMove\<close>, \<open>handleWheel\<close>) and the
  per-frame callback given to \<open>useFrame\<close> are the only code that touches this state.

  Modelling decisions.
  \<^item> A JavaScript Number is the \<open>real\<close> it denotes; there is no \<open>NaN\<close> and no
    \<open>Infinity\<close>. The one operation of the source that leaves the finite numbers on finite
    operands is the division by \<open>size.width\<close> and \<open>size.height\<close>; HOL's \<open>x / 0 = 0\<close> is
    not what JavaScript computes, so every statement below about the value of such a
    quotient assumes a positive viewport dimension.
  \<^item> The addition \<open>y += 0.1\<close> of \<open>handleWheel\<close> is the one place where the source
    feeds a computed number back into the state it computes from, event after event. It is
    modelled as the IEEE-754 binary64 operation it is: the literal \<open>0.1\<close> is the double
    nearest to one tenth and the sum is rounded to the nearest double, ties to even
    (\<open>fl\<close> below). The arithmetic of the pointer normalisation, of the rotation offsets
    and of \<open>lerp\<close> is exact.
  \<^item> \<open>Vector3\<close> and \<open>Euler\<close> values are mutable objects of the library; the source clones
    them and updates them in place. They live in an explicit store, a reference is an address,
    \<open>clone()\<close> and \<open>new\<close> allocate a fresh address. That a handler does not write the camera
    is then a theorem about addresses and not a property of the notation.
  \<^item> \<open>setMouse\<close> replaces the React state \<open>mouse\<close>; the re-render that hands the new value to
    the frame callback is taken as immediate.
  \<^item> React evaluates the arguments of \<open>useRef\<close> again at every re-render and drops the
    results; these clones, which nothing refers to, are left out of the store.
\<close>

subsection \<open>Data\<close>

type_synonym addr = nat

record Vector3 =
  vec_x :: real
  vec_y :: real
  vec_z :: real

record Euler =
  eul_x :: real
  eul_y :: real
  eul_z :: real

record Mouse =
  mouse_x :: real
  mouse_y :: real

record Size =
  width :: real
  height :: real

record PointerEvent =
  clientX :: real
  clientY :: real

record WheelEvent =
  deltaY :: real

text \<open>The store of library objects: one table per class and the next free address of each.\<close>

record heap =
  vectors :: "addr \<Rightarrow> Vector3"
  eulers :: "addr \<Rightarrow> Euler"
  vfree :: addr
  efree :: addr

text \<open>The host's camera object: its \<open>position\<close> and \<open>rotation\<close> fields hold references.\<close>

record Camera =
  position :: addr
  rotation :: addr

text \<open>
  The state that the closures of \<open>CameraRig\<close> share: \<open>camera\<close> and \<open>size\<close> from \<open>useThree()\<close>
  (the field is called \<open>size_of\<close> here, \<open>size\<close> being a constant of HOL), the React state
  \<open>mouse\<close>, and the \<open>.current\<close> of the three refs.
\<close>

record rig =
  heap :: heap
  camera :: Camera
  size_of :: Size
  mouse :: Mouse
  initialRotation :: addr
  targetCameraPos :: addr
  originalPosition :: addr

subsection \<open>Library operations\<close>

text \<open>\<open>new THREE.Vector3(x, y, z)\<close>: a fresh object.\<close>

definition new_Vector3 :: "Vector3 \<Rightarrow> heap \<Rightarrow> addr \<times> heap" where
  "new_Vector3 v h =
     (vfree h, h\<lparr>vectors := (vectors h)(vfree h := v), vfree := Suc (vfree h)\<rparr>)"

definition new_Euler :: "Euler \<Rightarrow> heap \<Rightarrow> addr \<times> heap" where
  "new_Euler r h =
     (efree h, h\<lparr>eulers := (eulers h)(efree h := r), efree := Suc (efree h)\<rparr>)"

text \<open>
  Modelled from the spec: \<open>Vector3.clone\<close> and \<open>Euler.clone\<close> are code of the three.js
  library, which is not under \<open>src/\<close>. The spec reads the result as a value equal to the
  original (\<open>targetPos = originPos\<close>); the clone is a fresh object with the same fields.
\<close>

definition clone_Vector3 :: "addr \<Rightarrow> heap \<Rightarrow> addr \<times> heap" where
  "clone_Vector3 a h = new_Vector3 (vectors h a) h"

definition clone_Euler :: "addr \<Rightarrow> heap \<Rightarrow> addr \<times> heap" where
  "clone_Euler a h = new_Euler (eulers h a) h"

text \<open>
  Modelled from the spec: \<open>Vector3.lerp\<close> is code of the three.js library, which is not
  under \<open>src/\<close>. The glossary of the spec gives linear interpolation as \<open>a + (b - a) * t\<close>,
  moving a value the fraction \<open>t\<close> of the way from \<open>a\<close> toward \<open>b\<close>; on a vector it acts on
  each component, and the method overwrites the receiver.
\<close>

definition lerp :: "Vector3 \<Rightarrow> Vector3 \<Rightarrow> real \<Rightarrow> Vector3" where
  "lerp a b t =
     \<lparr>vec_x = vec_x a + (vec_x b - vec_x a) * t,
      vec_y = vec_y a + (vec_y b - vec_y a) * t,
      vec_z = vec_z a + (vec_z b - vec_z a) * t\<rparr>"

definition Vector3_lerp :: "addr \<Rightarrow> addr \<Rightarrow> real \<Rightarrow> heap \<Rightarrow> heap" where
  "Vector3_lerp this v alpha h =
     h\<lparr>vectors := (vectors h)(this := lerp (vectors h this) (vectors h v) alpha)\<rparr>"

text \<open>The Euclidean distance of two points, the measure the spec's convergence property uses.\<close>

definition distanceTo :: "Vector3 \<Rightarrow> Vector3 \<Rightarrow> real" where
  "distanceTo a b =
     sqrt ((vec_x a - vec_x b)\<^sup>2 + (vec_y a - vec_y b)\<^sup>2 + (vec_z a - vec_z b)\<^sup>2)"

subsection \<open>The component\<close>

text \<open>
  Mounting \<open>CameraRig\<close> (lines 47 to 57): \<open>useState({x: 0, y: 0})\<close>,
  \<open>useRef(camera.rotation.clone())\<close>, \<open>useRef(camera.position.clone())\<close> and
  \<open>useRef(new THREE.Vector3(7, 0.75, 1))\<close>, in this order.
\<close>

definition CameraRig :: "Camera \<Rightarrow> Size \<Rightarrow> heap \<Rightarrow> rig" where
  "CameraRig cam sz h =
     (let (r, h1) = clone_Euler (rotation cam) h;
          (t, h2) = clone_Vector3 (position cam) h1;
          (p, h3) = new_Vector3 \<lparr>vec_x = 7, vec_y = 0.75, vec_z = 1\<rparr> h2
      in \<lparr>heap = h3, camera = cam, size_of = sz, mouse = \<lparr>mouse_x = 0, mouse_y = 0\<rparr>,
          initialRotation = r, targetCameraPos = t, originalPosition = p\<rparr>)"

text \<open>
  \<open>Scene\<close> (lines 118 to 139) mounts the rig in a canvas whose camera is created with
  \<open>position: [7, 0.75, 1]\<close>. The orientation the host gives that camera and the size of
  the canvas are not fixed by the source: they are parameters.
\<close>

definition empty_heap :: heap where
  "empty_heap =
     \<lparr>vectors = (\<lambda>_. \<lparr>vec_x = 0, vec_y = 0, vec_z = 0\<rparr>),
      eulers = (\<lambda>_. \<lparr>eul_x = 0, eul_y = 0, eul_z = 0\<rparr>),
      vfree = 0, efree = 0\<rparr>"

definition Scene :: "Euler \<Rightarrow> Size \<Rightarrow> rig" where
  "Scene rot sz =
     (let (p, h1) = new_Vector3 \<lparr>vec_x = 7, vec_y = 0.75, vec_z = 1\<rparr> empty_heap;
          (r, h2) = new_Euler rot h1
      in CameraRig \<lparr>position = p, rotation = r\<rparr> sz h2)"

text \<open>Lines 60 to 68: the handler of \<open>pointermove\<close>.\<close>

definition handlePointerMove :: "PointerEvent \<Rightarrow> rig \<Rightarrow> rig" where
  "handlePointerMove event s =
     s\<lparr>mouse :=
         \<lparr>mouse_x = (clientX event / width (size_of s)) * 2 - 1,
          mouse_y = (clientY event / height (size_of s)) * 2 - 1\<rparr>\<rparr>"

text \<open>
  IEEE-754 binary64 rounding, to nearest with ties to even. \<open>round_half_even\<close> rounds to
  an integer; \<open>pow2 e\<close> is \<open>2\<close> to the integer power \<open>e\<close>; \<open>expo x\<close> is the binary
  exponent of a positive \<open>x\<close>, the \<open>e\<close> with \<open>pow2 e \<le> x < pow2 (e + 1)\<close>. A double has
  53 significant bits, so in the binade of exponent \<open>e\<close> the doubles are the multiples of
  \<open>pow2 (e - 52)\<close>; below the smallest normal exponent \<open>-1022\<close> the spacing stays that of
  the subnormal numbers. \<open>fl x\<close> is the multiple nearest to \<open>x\<close>. A result of magnitude
  \<open>2 ^ 1024\<close> or more would be \<open>Infinity\<close> in JavaScript; the sum of a double and \<open>0.1\<close>
  never is, as \<open>0.1\<close> is far below half the spacing at the largest double.
\<close>

definition round_half_even :: "real \<Rightarrow> int" where
  "round_half_even t =
     (let f = \<lfloor>t\<rfloor>; r = t - of_int f
      in if r < 1 / 2 then f else if 1 / 2 < r then f + 1 else if even f then f else f + 1)"

definition pow2 :: "int \<Rightarrow> real" where
  "pow2 e = (if 0 \<le> e then 2 ^ nat e else 1 / 2 ^ nat (- e))"

function expo :: "real \<Rightarrow> int" where
  "expo x =
     (if x \<le> 0 then 0
      else if 2 \<le> x then expo (x / 2) + 1
      else if x < 1 then expo (x * 2) - 1
      else 0)"
  by pat_completeness auto
termination
proof (relation "measure (\<lambda>x. nat \<bar>\<lfloor>log 2 x\<rfloor>\<bar>)")
  show "wf (measure (\<lambda>x. nat \<bar>\<lfloor>log 2 x\<rfloor>\<bar>))"
    by simp
next
  fix x :: real
  assume "\<not> x \<le> 0" and "2 \<le> x"
  then have "log 2 (x / 2) = log 2 x - 1" and "1 \<le> log 2 x"
    by (simp_all add: log_divide le_log_iff)
  then have "\<lfloor>log 2 (x / 2)\<rfloor> = \<lfloor>log 2 x\<rfloor> - 1" and "1 \<le> \<lfloor>log 2 x\<rfloor>"
    by (simp_all add: le_floor_iff)
  then show "(x / 2, x) \<in> measure (\<lambda>x. nat \<bar>\<lfloor>log 2 x\<rfloor>\<bar>)"
    by simp
next
  fix x :: real
  assume "\<not> x \<le> 0" and "x < 1"
  then have "log 2 (x * 2) = log 2 x + 1" and "log 2 x < 0"
    by (simp_all add: log_mult)
  then have "\<lfloor>log 2 (x * 2)\<rfloor> = \<lfloor>log 2 x\<rfloor> + 1" and "\<lfloor>log 2 x\<rfloor> < 0"
    by (simp_all add: floor_less_iff)
  then have "nat \<bar>\<lfloor>log 2 (x * 2)\<rfloor>\<bar> < nat \<bar>\<lfloor>log 2 x\<rfloor>\<bar>"
    by linarith
  then show "(x * 2, x) \<in> measure (\<lambda>x. nat \<bar>\<lfloor>log 2 x\<rfloor>\<bar>)"
    by simp
qed

declare expo.simps [simp del]

definition fl :: "real \<Rightarrow> real" where
  "fl x =
     (let q = pow2 (max (expo \<bar>x\<bar>) (- 1022) - 52)
      in of_int (round_half_even (x / q)) * q)"

text \<open>
  \<open>v.y += d\<close> on the object at an address: a double addition, the exact sum rounded.
\<close>

definition add_y :: "addr \<Rightarrow> real \<Rightarrow> heap \<Rightarrow> heap" where
  "add_y a d h =
     h\<lparr>vectors := (vectors h)(a := (vectors h a)\<lparr>vec_y := fl (vec_y (vectors h a) + d)\<rparr>)\<rparr>"

text \<open>
  Lines 71 to 80: the handler of \<open>wheel\<close>. The literal \<open>0.1\<close> of line 75 is the double
  \<open>fl 0.1\<close>.
\<close>

definition handleWheel :: "WheelEvent \<Rightarrow> rig \<Rightarrow> rig" where
  "handleWheel event s =
     (if deltaY event > 0 then
        (let (a, h) = clone_Vector3 (targetCameraPos s) (heap s);
             s1 = s\<lparr>heap := h, targetCameraPos := a\<rparr>
         in s1\<lparr>heap := add_y (targetCameraPos s1) (fl 0.1) (heap s1)\<rparr>)
      else if deltaY event < 0 then
        (let (a, h) = clone_Vector3 (originalPosition s) (heap s)
         in s\<lparr>heap := h, targetCameraPos := a\<rparr>)
      else s)"

text \<open>\<open>e.y = v\<close> and \<open>e.x = v\<close> on the Euler object at an address.\<close>

definition set_eul_y :: "addr \<Rightarrow> real \<Rightarrow> heap \<Rightarrow> heap" where
  "set_eul_y a v h = h\<lparr>eulers := (eulers h)(a := (eulers h a)\<lparr>eul_y := v\<rparr>)\<rparr>"

definition set_eul_x :: "addr \<Rightarrow> real \<Rightarrow> heap \<Rightarrow> heap" where
  "set_eul_x a v h = h\<lparr>eulers := (eulers h)(a := (eulers h a)\<lparr>eul_x := v\<rparr>)\<rparr>"

text \<open>
  Lines 93 to 101: the callback of \<open>useFrame\<close>. The three statements run in the order of
  the source, each reading the store the one before it left.
\<close>

definition useFrame :: "rig \<Rightarrow> rig" where
  "useFrame s =
     (let h1 = set_eul_y (rotation (camera s))
                 (eul_y (eulers (heap s) (initialRotation s)) - mouse_x (mouse s) * 0.035)
                 (heap s);
          h2 = set_eul_x (rotation (camera s))
                 (eul_x (eulers h1 (initialRotation s)) - mouse_y (mouse s) * 0.025)
                 h1;
          h3 = Vector3_lerp (position (camera s)) (targetCameraPos s) 0.02 h2
      in s\<lparr>heap := h3\<rparr>)"

subsection \<open>Runs of the component\<close>

datatype event = PointerMove PointerEvent | Wheel WheelEvent | Frame

fun step :: "event \<Rightarrow> rig \<Rightarrow> rig" where
  "step (PointerMove e) s = handlePointerMove e s"
| "step (Wheel e) s = handleWheel e s"
| "step Frame s = useFrame s"

fun run :: "event list \<Rightarrow> rig \<Rightarrow> rig" where
  "run [] s = s"
| "run (e # es) s = run es (step e s)"

text \<open>What the references of a state point at.\<close>

definition cam_pos :: "rig \<Rightarrow> Vector3" where
  "cam_pos s = vectors (heap s) (position (camera s))"

definition cam_rot :: "rig \<Rightarrow> Euler" where
  "cam_rot s = eulers (heap s) (rotation (camera s))"

definition target :: "rig \<Rightarrow> Vector3" where
  "target s = vectors (heap s) (targetCameraPos s)"

definition origin :: "rig \<Rightarrow> Vector3" where
  "origin s = vectors (heap s) (originalPosition s)"

definition baseline :: "rig \<Rightarrow> Euler" where
  "baseline s = eulers (heap s) (initialRotation s)"

text \<open>\<open>N\<close> wheel events in a row.\<close>

fun wheels :: "WheelEvent list \<Rightarrow> rig \<Rightarrow> rig" where
  "wheels [] s = s"
| "wheels (e # es) s = wheels es (handleWheel e s)"

subsection \<open>Predicates used in the statements\<close>

text \<open>
  The references of a state are well separated: the objects of the camera, of the target and
  of the origin are allocated, and the camera shares no object with a ref of the rig. Every
  state the component reaches has this shape (\<open>rig_inv_reach\<close> below); it is what the
  calls of \<open>clone()\<close> in the source buy.
\<close>

definition rig_inv :: "rig \<Rightarrow> bool" where
  "rig_inv s \<longleftrightarrow>
     position (camera s) < vfree (heap s) \<and>
     targetCameraPos s < vfree (heap s) \<and>
     originalPosition s < vfree (heap s) \<and>
     position (camera s) \<noteq> targetCameraPos s \<and>
     position (camera s) \<noteq> originalPosition s \<and>
     rotation (camera s) \<noteq> initialRotation s"

text \<open>
  What one downward scroll leaves in the \<open>y\<close> of the target, and a point moved up by
  \<open>k\<close> such steps.
\<close>

definition scroll_step :: "real \<Rightarrow> real" where
  "scroll_step y = fl (y + fl 0.1)"

definition shifted :: "Vector3 \<Rightarrow> nat \<Rightarrow> Vector3" where
  "shifted p k = p\<lparr>vec_y := (scroll_step ^^ k) (vec_y p)\<rparr>"

text \<open>
  \<open>c\<close> lies between \<open>a\<close> and \<open>b\<close>, on a line and on each axis of a vector: a step from
  \<open>a\<close> that ends at such a \<open>c\<close> neither passes \<open>b\<close> nor moves away from it.
\<close>

definition between :: "real \<Rightarrow> real \<Rightarrow> real \<Rightarrow> bool" where
  "between a b c \<longleftrightarrow> (a \<le> c \<and> c \<le> b) \<or> (b \<le> c \<and> c \<le> a)"

definition on_the_way :: "Vector3 \<Rightarrow> Vector3 \<Rightarrow> Vector3 \<Rightarrow> bool" where
  "on_the_way a b c \<longleftrightarrow>
     between (vec_x a) (vec_x b) (vec_x c) \<and>
     between (vec_y a) (vec_y b) (vec_y c) \<and>
     between (vec_z a) (vec_z b) (vec_z c)"

section \<open>Auxiliary facts\<close>

lemmas lib_defs = new_Vector3_def new_Euler_def clone_Vector3_def clone_Euler_def
  Vector3_lerp_def add_y_def set_eul_x_def set_eul_y_def

lemma pow2_pos: "0 < pow2 e"
  by (simp add: pow2_def)

lemma pow2_Suc: "pow2 (e + 1) = 2 * pow2 e"
proof (cases "0 \<le> e")
  case True
  then show ?thesis
    by (simp add: pow2_def nat_add_distrib)
next
  case False
  then have "nat (- e) = Suc (nat (- (e + 1)))"
    by simp
  then show ?thesis
    using False by (simp add: pow2_def)
qed

lemma pow2_pred: "pow2 (e - 1) = pow2 e / 2"
  using pow2_Suc [of "e - 1"] by simp

lemma pow2_mono: "a \<le> b \<Longrightarrow> pow2 a \<le> pow2 b"
proof -
  assume "a \<le> b"
  then obtain n where b: "b = a + int n"
    using zle_iff_zadd by blast
  have "pow2 a \<le> pow2 (a + int n)"
  proof (induction n)
    case 0
    show ?case by simp
  next
    case (Suc n)
    have "a + int (Suc n) = a + int n + 1"
      by simp
    then have "pow2 (a + int (Suc n)) = 2 * pow2 (a + int n)"
      by (simp only: pow2_Suc)
    then show ?case
      using Suc pow2_pos [of "a + int n"] by simp
  qed
  then show ?thesis
    by (simp add: b)
qed

lemma pow2_shift: "pow2 (e - int k) * 2 ^ k = pow2 e"
proof (induction k)
  case 0
  show ?case by simp
next
  case (Suc k)
  have "e - int (Suc k) = e - int k - 1"
    by simp
  then have "pow2 (e - int (Suc k)) = pow2 (e - int k) / 2"
    by (simp only: pow2_pred)
  then have "pow2 (e - int (Suc k)) * 2 ^ Suc k = pow2 (e - int k) * 2 ^ k"
    by simp
  then show ?case
    using Suc by simp
qed

lemma expo_bounds: "0 < x \<Longrightarrow> pow2 (expo x) \<le> x \<and> x < pow2 (expo x + 1)"
proof (induction x rule: expo.induct)
  case (1 x)
  consider "2 \<le> x" | "x < 1" | "1 \<le> x" "x < 2"
    by linarith
  then show ?case
  proof cases
    case 1
    have e: "expo x = expo (x / 2) + 1"
      using 1 "1.prems" by (subst expo.simps) simp
    have "pow2 (expo (x / 2)) \<le> x / 2 \<and> x / 2 < pow2 (expo (x / 2) + 1)"
      using "1.IH"(1) 1 "1.prems" by simp
    then show ?thesis
      unfolding e pow2_Suc by simp
  next
    case 2
    have e: "expo x = expo (x * 2) - 1"
      using 2 "1.prems" by (subst expo.simps) simp
    have "pow2 (expo (x * 2)) \<le> x * 2 \<and> x * 2 < pow2 (expo (x * 2) + 1)"
      using "1.IH"(2) 2 "1.prems" by simp
    then show ?thesis
      unfolding e pow2_pred using pow2_Suc [of "expo (x * 2)"] by simp
  next
    case 3
    have e: "expo x = 0"
      using 3 by (subst expo.simps) simp
    show ?thesis
      unfolding e using 3 by (simp add: pow2_def)
  qed
qed

lemma expo_eq:
  assumes "0 < x" and "pow2 e \<le> x" and "x < pow2 (e + 1)"
  shows "expo x = e"
proof (rule ccontr)
  assume ne: "expo x \<noteq> e"
  note b = expo_bounds [OF assms(1)]
  show False
  proof (cases "expo x < e")
    case True
    then have "pow2 (expo x + 1) \<le> pow2 e"
      by (intro pow2_mono) simp
    then show False
      using b assms(2) by simp
  next
    case False
    then have "pow2 (e + 1) \<le> pow2 (expo x)"
      using ne by (intro pow2_mono) simp
    then show False
      using b assms(3) by simp
  qed
qed

lemma fl_eval:
  assumes "0 < x" and "k \<le> 1074" and "2 ^ 52 \<le> x * 2 ^ k" and "x * 2 ^ k < 2 ^ 53"
  shows "fl x = of_int (round_half_even (x * 2 ^ k)) / 2 ^ k"
proof -
  have "pow2 52 = 2 ^ 52" and "pow2 53 = 2 ^ 53"
    by (simp_all add: pow2_def)
  then have p: "pow2 (52 - int k) * 2 ^ k = 2 ^ 52"
    and p': "pow2 (53 - int k) * 2 ^ k = 2 ^ 53"
    using pow2_shift [of 52 k] pow2_shift [of 53 k] by simp_all
  have lo: "pow2 (52 - int k) \<le> x"
  proof -
    have "pow2 (52 - int k) * 2 ^ k \<le> x * 2 ^ k"
      using assms(3) p by simp
    then show ?thesis by simp
  qed
  have hi: "x < pow2 (52 - int k + 1)"
  proof -
    have "x * 2 ^ k < pow2 (53 - int k) * 2 ^ k"
      using assms(4) p' by simp
    then have "x < pow2 (53 - int k)"
      by simp
    moreover have "52 - int k + 1 = 53 - int k"
      by simp
    ultimately show ?thesis
      by (simp only:)
  qed
  have e: "expo \<bar>x\<bar> = 52 - int k"
    using expo_eq [OF assms(1) lo hi] assms(1) by simp
  have m: "max (52 - int k) (- 1022) - 52 = - int k"
    using assms(2) by simp
  have "pow2 0 = 1"
    by (simp add: pow2_def)
  then have "pow2 (- int k) * 2 ^ k = 1"
    using pow2_shift [of 0 k] by simp
  then have q: "pow2 (- int k) = 1 / 2 ^ k"
    by (simp add: field_simps)
  show ?thesis
    by (simp add: fl_def e m q)
qed

lemma fl_tenth: "fl 0.1 = 3602879701896397 / 36028797018963968"
  using fl_eval [of "0.1" 56] by (simp add: round_half_even_def)

lemma fl_21_20: "fl (21 / 20) = 4728779608739021 / 4503599627370496"
  using fl_eval [of "21 / 20" 52] by (simp add: round_half_even_def)

lemma fl_1_05: "fl 1.05 = 4728779608739021 / 4503599627370496"
  using fl_21_20 by simp

lemma scroll_1: "scroll_step (3 / 4) = 7656119366529843 / 9007199254740992"
  unfolding scroll_step_def fl_tenth
  using fl_eval [of "3 / 4 + 3602879701896397 / 36028797018963968" 53]
  by (simp add: round_half_even_def)

lemma scroll_2:
  "scroll_step (7656119366529843 / 9007199254740992) = 4278419646001971 / 4503599627370496"
  unfolding scroll_step_def fl_tenth
  using fl_eval [of "7656119366529843 / 9007199254740992 + 3602879701896397 / 36028797018963968" 53]
  by (simp add: round_half_even_def)

lemma scroll_3:
  "scroll_step (4278419646001971 / 4503599627370496) = 4728779608739021 / 4503599627370496"
  unfolding scroll_step_def fl_tenth
  using fl_eval [of "4278419646001971 / 4503599627370496 + 3602879701896397 / 36028797018963968" 52]
  by (simp add: round_half_even_def)

lemma scroll_4:
  "scroll_step (4728779608739021 / 4503599627370496) = 5179139571476071 / 4503599627370496"
  unfolding scroll_step_def fl_tenth
  using fl_eval [of "4728779608739021 / 4503599627370496 + 3602879701896397 / 36028797018963968" 52]
  by (simp add: round_half_even_def)

lemma scroll_stuck: "scroll_step (2 ^ 50) = 2 ^ 50"
  unfolding scroll_step_def fl_tenth
  using fl_eval [of "2 ^ 50 + 3602879701896397 / 36028797018963968" 2]
  by (simp add: round_half_even_def)

lemma round_half_even_le:
  assumes "t < of_int n + 1 / 2"
  shows "round_half_even t \<le> n"
proof -
  have f: "\<lfloor>t\<rfloor> \<le> n"
    using assms by (simp add: floor_le_iff)
  show ?thesis
  proof (cases "\<lfloor>t\<rfloor> = n")
    case True
    then have "t - of_int \<lfloor>t\<rfloor> < 1 / 2"
      using assms by simp
    then show ?thesis
      using True by (simp add: round_half_even_def)
  next
    case False
    then have "\<lfloor>t\<rfloor> + 1 \<le> n"
      using f by simp
    then show ?thesis
      by (simp add: round_half_even_def Let_def)
  qed
qed

lemma pow2_less_imp: "pow2 a < pow2 b \<Longrightarrow> a < b"
  using pow2_mono [of b a] by (cases "a < b") simp_all

lemma pow2_nat: "0 \<le> e \<Longrightarrow> pow2 e = of_int (2 ^ nat e)"
  by (simp add: pow2_def)

lemma pow2_diff: "pow2 a / pow2 b = pow2 (a - b)"
proof -
  have "pow2 (a - b) * pow2 b = pow2 a"
  proof (cases "0 \<le> b")
    case True
    then show ?thesis
      using pow2_shift [of a "nat b"] by (simp add: pow2_def)
  next
    case False
    then have "pow2 (a - b - int (nat (- b))) * 2 ^ nat (- b) = pow2 (a - b)"
      by (simp only: pow2_shift)
    then have "pow2 a * 2 ^ nat (- b) = pow2 (a - b)"
      using False by simp
    then show ?thesis
      using False by (simp add: pow2_def field_simps)
  qed
  then show ?thesis
    using pow2_pos [of b] by (simp add: field_simps)
qed

lemma fl_le_cap:
  assumes "x \<le> 2 ^ 50 + 1 / 10 + 1 / 1000"
  shows "fl x \<le> 2 ^ 50"
proof (cases "x \<le> 0")
  case True
  define q where "q = pow2 (max (expo \<bar>x\<bar>) (- 1022) - 52)"
  have q: "0 < q"
    unfolding q_def by (rule pow2_pos)
  then have "x / q \<le> 0"
    using True by (simp add: divide_nonpos_pos)
  then have "x / q < real_of_int 0 + 1 / 2"
    by linarith
  then have "round_half_even (x / q) \<le> 0"
    by (rule round_half_even_le)
  then have "of_int (round_half_even (x / q)) * q \<le> 0"
    using q by (simp add: mult_nonpos_nonneg)
  then show ?thesis
    by (simp add: fl_def q_def [symmetric] Let_def)
next
  case False
  then have pos: "0 < x" by simp
  define e where "e = expo x"
  define g where "g = max e (- 1022) - 52"
  have b: "pow2 e \<le> x" "x < pow2 (e + 1)"
    using expo_bounds [OF pos] by (simp_all add: e_def)
  have "pow2 51 = 2 ^ 51" and p50: "pow2 50 = 2 ^ 50"
    by (simp_all add: pow2_def)
  then have "pow2 e < pow2 51"
    using b(1) assms by simp
  then have e50: "e \<le> 50"
    using pow2_less_imp [of e 51] by simp
  have g2: "g \<le> - 2" and ge: "e - 52 \<le> g"
    using e50 by (simp_all add: g_def)
  have q: "0 < pow2 g"
    by (rule pow2_pos)
  have K: "2 ^ 50 / pow2 g = of_int (2 ^ nat (50 - g))"
    using pow2_diff [of 50 g] pow2_nat [of "50 - g"] g2 p50 by simp
  have "x / pow2 g < of_int (2 ^ nat (50 - g)) + 1 / 2"
  proof (cases "e = 50")
    case True
    then have g: "g = - 2"
      by (simp add: g_def)
    have pg: "pow2 g = 1 / 4"
      unfolding g by (simp add: pow2_def)
    have "x / pow2 g = 4 * x"
      unfolding pg by simp
    moreover have "4 * x < 2 ^ 52 + 1 / 2"
      using assms by simp
    moreover have "real_of_int (2 ^ nat (50 - g)) = 2 ^ 52"
      unfolding g by simp
    ultimately show ?thesis
      by (simp only:)
  next
    case False
    then have "e + 1 \<le> 50"
      using e50 by simp
    then have "pow2 (e + 1) \<le> pow2 50"
      by (rule pow2_mono)
    then have "x < 2 ^ 50"
      using b(2) p50 by simp
    then have "x / pow2 g < 2 ^ 50 / pow2 g"
      using q by (simp add: divide_strict_right_mono)
    then show ?thesis
      unfolding K by simp
  qed
  then have "round_half_even (x / pow2 g) \<le> 2 ^ nat (50 - g)"
    by (rule round_half_even_le)
  then have "real_of_int (round_half_even (x / pow2 g)) \<le> 2 ^ 50 / pow2 g"
    unfolding K by (simp only: of_int_le_iff)
  then have "real_of_int (round_half_even (x / pow2 g)) * pow2 g \<le> 2 ^ 50"
    using q by (simp add: pos_le_divide_eq)
  then show ?thesis
    using pos by (simp add: fl_def g_def e_def Let_def)
qed

lemma scroll_step_cap: "y \<le> 2 ^ 50 \<Longrightarrow> scroll_step y \<le> 2 ^ 50"
  unfolding scroll_step_def fl_tenth by (rule fl_le_cap) simp

lemma scroll_steps_cap: "y \<le> 2 ^ 50 \<Longrightarrow> (scroll_step ^^ n) y \<le> 2 ^ 50"
proof (induction n)
  case 0
  then show ?case by simp
next
  case (Suc n)
  then have "(scroll_step ^^ n) y \<le> 2 ^ 50"
    by blast
  then have "scroll_step ((scroll_step ^^ n) y) \<le> 2 ^ 50"
    by (rule scroll_step_cap)
  then show ?case
    by simp
qed

lemma rig_inv_Scene: "rig_inv (Scene rot sz)"
  by (simp add: rig_inv_def Scene_def CameraRig_def empty_heap_def lib_defs)

lemma rig_inv_handlePointerMove: "rig_inv s \<Longrightarrow> rig_inv (handlePointerMove e s)"
  by (simp add: rig_inv_def handlePointerMove_def)

lemma rig_inv_handleWheel: "rig_inv s \<Longrightarrow> rig_inv (handleWheel e s)"
  by (auto simp add: rig_inv_def handleWheel_def lib_defs Let_def)

lemma rig_inv_useFrame: "rig_inv s \<Longrightarrow> rig_inv (useFrame s)"
  by (simp add: rig_inv_def useFrame_def lib_defs Let_def)

lemma rig_inv_step: "rig_inv s \<Longrightarrow> rig_inv (step e s)"
  by (cases e) (simp_all add: rig_inv_handlePointerMove rig_inv_handleWheel rig_inv_useFrame)

lemma rig_inv_run: "rig_inv s \<Longrightarrow> rig_inv (run es s)"
  by (induction es arbitrary: s) (simp_all add: rig_inv_step)

lemma target_wheel_down:
  "0 < deltaY e \<Longrightarrow>
   target (handleWheel e s) = (target s)\<lparr>vec_y := scroll_step (vec_y (target s))\<rparr>"
  by (simp add: handleWheel_def target_def scroll_step_def lib_defs Let_def)

lemma target_wheel_up: "deltaY e < 0 \<Longrightarrow> target (handleWheel e s) = origin s"
  by (simp add: handleWheel_def target_def origin_def lib_defs Let_def)

lemma camera_step: "camera (step e s) = camera s"
  by (cases e) (simp_all add: handlePointerMove_def handleWheel_def useFrame_def Let_def split_def)

lemma origin_step: "rig_inv s \<Longrightarrow> origin (step e s) = origin s"
  by (cases e) (auto simp add: rig_inv_def origin_def handlePointerMove_def handleWheel_def useFrame_def lib_defs Let_def)

lemma baseline_step: "rig_inv s \<Longrightarrow> baseline (step e s) = baseline s"
  by (cases e) (auto simp add: rig_inv_def baseline_def handlePointerMove_def handleWheel_def useFrame_def lib_defs Let_def)

lemma origin_Scene: "origin (Scene rot sz) = \<lparr>vec_x = 7, vec_y = 0.75, vec_z = 1\<rparr>"
  by (simp add: origin_def Scene_def CameraRig_def empty_heap_def lib_defs)

lemma target_Scene: "target (Scene rot sz) = \<lparr>vec_x = 7, vec_y = 0.75, vec_z = 1\<rparr>"
  by (simp add: target_def Scene_def CameraRig_def empty_heap_def lib_defs)

lemma baseline_Scene: "baseline (Scene rot sz) = rot"
  by (simp add: baseline_def Scene_def CameraRig_def empty_heap_def lib_defs)

lemma cam_rot_Scene: "cam_rot (Scene rot sz) = rot"
  by (simp add: cam_rot_def Scene_def CameraRig_def empty_heap_def lib_defs)

lemma origin_run: "rig_inv s \<Longrightarrow> origin (run es s) = origin s"
  by (induction es arbitrary: s) (simp_all add: origin_step rig_inv_step)

lemma baseline_run: "rig_inv s \<Longrightarrow> baseline (run es s) = baseline s"
  by (induction es arbitrary: s) (simp_all add: baseline_step rig_inv_step)

lemma size_of_step: "size_of (step e s) = size_of s"
  by (cases e) (simp_all add: handlePointerMove_def handleWheel_def useFrame_def Let_def split_def)

lemma size_of_run: "size_of (run es s) = size_of s"
  by (induction es arbitrary: s) (simp_all add: size_of_step)

lemma size_of_Scene: "size_of (Scene rot sz) = sz"
  by (simp add: Scene_def CameraRig_def empty_heap_def lib_defs)

lemma mouse_Scene: "mouse (Scene rot sz) = \<lparr>mouse_x = 0, mouse_y = 0\<rparr>"
  by (simp add: Scene_def CameraRig_def empty_heap_def lib_defs)

lemma camera_run: "camera (run es s) = camera s"
  by (induction es arbitrary: s) (simp_all add: camera_step)

lemma rig_inv_reach: "rig_inv (run evs (Scene rot sz))"
  by (simp add: rig_inv_run rig_inv_Scene)

lemma origin_reach: "origin (run evs (Scene rot sz)) = \<lparr>vec_x = 7, vec_y = 0.75, vec_z = 1\<rparr>"
  by (simp add: origin_run rig_inv_Scene origin_Scene)

lemma baseline_reach: "baseline (run evs (Scene rot sz)) = rot"
  by (simp add: baseline_run rig_inv_Scene baseline_Scene)

lemma target_useFrame: "position (camera s) \<noteq> targetCameraPos s \<Longrightarrow> target (useFrame s) = target s"
  by (simp add: target_def useFrame_def lib_defs Let_def)

lemma target_handlePointerMove: "target (handlePointerMove e s) = target s"
  by (simp add: target_def handlePointerMove_def)

lemma target_wheel_zero: "deltaY e = 0 \<Longrightarrow> target (handleWheel e s) = target s"
  by (simp add: handleWheel_def)

lemma rot_z_useFrame: "eul_z (cam_rot (useFrame s)) = eul_z (cam_rot s)"
  by (simp add: cam_rot_def useFrame_def lib_defs Let_def)

lemma cam_rot_handlePointerMove: "cam_rot (handlePointerMove e s) = cam_rot s"
  by (simp add: cam_rot_def handlePointerMove_def)

lemma cam_rot_handleWheel: "cam_rot (handleWheel e s) = cam_rot s"
  by (simp add: cam_rot_def handleWheel_def lib_defs Let_def)

lemma cam_pos_handlePointerMove: "cam_pos (handlePointerMove e s) = cam_pos s"
  by (simp add: cam_pos_def handlePointerMove_def)

lemma cam_pos_handleWheel: "rig_inv s \<Longrightarrow> cam_pos (handleWheel e s) = cam_pos s"
  by (auto simp add: rig_inv_def cam_pos_def handleWheel_def lib_defs Let_def)

lemma rot_z_step: "eul_z (cam_rot (step e s)) = eul_z (cam_rot s)"
  by (cases e) (simp_all add: rot_z_useFrame cam_rot_handlePointerMove cam_rot_handleWheel)

lemma rot_z_run: "eul_z (cam_rot (run es s)) = eul_z (cam_rot s)"
  by (induction es arbitrary: s) (simp_all add: rot_z_step)

lemma rot_z_reach: "eul_z (cam_rot (run evs (Scene rot sz))) = eul_z rot"
  by (simp add: rot_z_run cam_rot_Scene)

lemma cam_rot_useFrame:
  "rotation (camera s) \<noteq> initialRotation s \<Longrightarrow>
   cam_rot (useFrame s) =
     (cam_rot s)\<lparr>eul_x := eul_x (baseline s) - mouse_y (mouse s) * 0.025,
                 eul_y := eul_y (baseline s) - mouse_x (mouse s) * 0.035\<rparr>"
  by (simp add: cam_rot_def baseline_def useFrame_def lib_defs Let_def)

lemma baseline_useFrame:
  "rotation (camera s) \<noteq> initialRotation s \<Longrightarrow> baseline (useFrame s) = baseline s"
  by (simp add: baseline_def useFrame_def lib_defs Let_def)

lemma mouse_useFrame: "mouse (useFrame s) = mouse s"
  by (simp add: useFrame_def Let_def)

lemma target_wheels_down:
  "\<forall>e \<in> set es. 0 < deltaY e \<Longrightarrow>
   target (wheels es s) = (target s)\<lparr>vec_y := (scroll_step ^^ length es) (vec_y (target s))\<rparr>"
proof (induction es arbitrary: s)
  case Nil
  show ?case by simp
next
  case (Cons e es)
  have "0 < deltaY e" and rest: "\<forall>e \<in> set es. 0 < deltaY e"
    using Cons.prems by simp_all
  then show ?case
    by (simp add: Cons.IH [OF rest] target_wheel_down funpow_swap1)
qed

lemma mouse_x_range:
  "0 < width (size_of s) \<Longrightarrow> 0 \<le> clientX e \<Longrightarrow> clientX e \<le> width (size_of s) \<Longrightarrow>
   - 1 \<le> mouse_x (mouse (handlePointerMove e s)) \<and> mouse_x (mouse (handlePointerMove e s)) \<le> 1"
  by (simp add: handlePointerMove_def field_simps)

lemma mouse_y_range:
  "0 < height (size_of s) \<Longrightarrow> 0 \<le> clientY e \<Longrightarrow> clientY e \<le> height (size_of s) \<Longrightarrow>
   - 1 \<le> mouse_y (mouse (handlePointerMove e s)) \<and> mouse_y (mouse (handlePointerMove e s)) \<le> 1"
  by (simp add: handlePointerMove_def field_simps)

lemma shifted_step:
  assumes inv: "rig_inv s" and t: "target s = shifted (origin s) k"
  shows "\<exists>j. target (step e s) = shifted (origin (step e s)) j"
proof (cases e)
  case (PointerMove p)
  then show ?thesis
    using t origin_step [OF inv, of e] by (auto simp add: target_handlePointerMove)
next
  case (Wheel w)
  have o: "origin (handleWheel w s) = origin s"
    using origin_step [OF inv, of e] Wheel by simp
  consider "0 < deltaY w" | "deltaY w < 0" | "deltaY w = 0"
    by linarith
  then show ?thesis
  proof cases
    case 1
    have "target (handleWheel w s) = shifted (origin s) (Suc k)"
      using 1 t by (simp add: target_wheel_down shifted_def)
    then show ?thesis using Wheel o by auto
  next
    case 2
    have "target (handleWheel w s) = shifted (origin s) 0"
      using 2 by (simp add: target_wheel_up shifted_def)
    then show ?thesis using Wheel o by auto
  next
    case 3
    then show ?thesis using Wheel t o by (auto simp add: target_wheel_zero)
  qed
next
  case Frame
  have "position (camera s) \<noteq> targetCameraPos s"
    using inv by (simp add: rig_inv_def)
  then show ?thesis
    using Frame t origin_step [OF inv, of e] by (auto simp add: target_useFrame)
qed

lemma shifted_run:
  "rig_inv s \<Longrightarrow> target s = shifted (origin s) k \<Longrightarrow>
   \<exists>j. target (run es s) = shifted (origin (run es s)) j"
proof (induction es arbitrary: s k)
  case Nil
  then show ?case by auto
next
  case (Cons e es)
  obtain j where "target (step e s) = shifted (origin (step e s)) j"
    using shifted_step [OF Cons.prems] by blast
  then show ?case
    using Cons.IH [of "step e s" j] Cons.prems(1) by (simp add: rig_inv_step)
qed

lemma wheel_frame:
  "(handleWheel w s)\<lparr>heap := heap s, targetCameraPos := targetCameraPos s\<rparr> = s"
  by (simp add: handleWheel_def lib_defs Let_def)

lemma wheel_eulers: "eulers (heap (handleWheel w s)) = eulers (heap s)"
  by (simp add: handleWheel_def lib_defs Let_def)

lemma wheel_old_vectors:
  "a < vfree (heap s) \<Longrightarrow> vectors (heap (handleWheel w s)) a = vectors (heap s) a"
  by (simp add: handleWheel_def lib_defs Let_def)

lemma cam_pos_useFrame: "cam_pos (useFrame s) = lerp (cam_pos s) (target s) 0.02"
  by (simp add: cam_pos_def target_def useFrame_def lib_defs Let_def)

lemma refs_useFrame:
  "camera (useFrame s) = camera s \<and> targetCameraPos (useFrame s) = targetCameraPos s"
  by (simp add: useFrame_def Let_def)

lemma frames_target:
  "position (camera s) \<noteq> targetCameraPos s \<Longrightarrow>
   target ((useFrame ^^ n) s) = target s \<and>
   camera ((useFrame ^^ n) s) = camera s \<and>
   targetCameraPos ((useFrame ^^ n) s) = targetCameraPos s"
proof (induction n)
  case 0
  show ?case by simp
next
  case (Suc n)
  then have ne: "position (camera ((useFrame ^^ n) s)) \<noteq> targetCameraPos ((useFrame ^^ n) s)"
    by simp
  show ?case
    using Suc target_useFrame [OF ne] refs_useFrame [of "(useFrame ^^ n) s"] by simp
qed

lemma between_lerp: "between a b (a + (b - a) * 0.02)"
  by (cases "a \<le> b") (simp_all add: between_def field_simps)

lemma on_the_way_lerp: "on_the_way a b (lerp a b 0.02)"
  unfolding on_the_way_def lerp_def using between_lerp by simp

lemma frames_residual:
  assumes "position (camera s) \<noteq> targetCameraPos s"
  shows "vec_x (target s) - vec_x (cam_pos ((useFrame ^^ n) s))
           = 0.98 ^ n * (vec_x (target s) - vec_x (cam_pos s)) \<and>
         vec_y (target s) - vec_y (cam_pos ((useFrame ^^ n) s))
           = 0.98 ^ n * (vec_y (target s) - vec_y (cam_pos s)) \<and>
         vec_z (target s) - vec_z (cam_pos ((useFrame ^^ n) s))
           = 0.98 ^ n * (vec_z (target s) - vec_z (cam_pos s))"
proof (induction n)
  case 0
  show ?case by simp
next
  case (Suc n)
  have t: "target ((useFrame ^^ n) s) = target s"
    using frames_target [OF assms] by simp
  have c: "cam_pos ((useFrame ^^ Suc n) s) = lerp (cam_pos ((useFrame ^^ n) s)) (target s) 0.02"
    by (simp add: cam_pos_useFrame t)
  have r: "b - (a + (b - a) * 0.02) = 0.98 * (b - a)" for a b :: real
  proof -
    have "(0.02::real) = 1 / 50" and "(0.98::real) = 49 / 50"
      by simp_all
    then show ?thesis
      by (simp add: field_simps)
  qed
  have comp: "b - (a + (b - a) * 0.02) = 0.98 ^ Suc n * d" if "b - a = 0.98 ^ n * d"
    for a b d :: real
  proof -
    have "b - (a + (b - a) * 0.02) = 0.98 * (b - a)"
      by (rule r)
    also have "\<dots> = 0.98 * (0.98 ^ n * d)"
      by (simp only: that)
    also have "\<dots> = 0.98 ^ Suc n * d"
      by simp
    finally show ?thesis .
  qed
  note x = comp [OF Suc [THEN conjunct1]]
    and y = comp [OF Suc [THEN conjunct2, THEN conjunct1]]
    and z = comp [OF Suc [THEN conjunct2, THEN conjunct2]]
  show ?case
    unfolding c lerp_def Vector3.select_convs using x y z by blast
qed

lemma distanceTo_scaled:
  assumes "vec_x b - vec_x a = q * (vec_x b - vec_x c)"
    and "vec_y b - vec_y a = q * (vec_y b - vec_y c)"
    and "vec_z b - vec_z a = q * (vec_z b - vec_z c)"
  shows "distanceTo a b = \<bar>q\<bar> * distanceTo c b"
proof -
  have sq: "(u - v)\<^sup>2 = (v - u)\<^sup>2" for u v :: real
    by (simp add: power2_commute)
  have "(vec_x a - vec_x b)\<^sup>2 + (vec_y a - vec_y b)\<^sup>2 + (vec_z a - vec_z b)\<^sup>2
      = q\<^sup>2 * ((vec_x c - vec_x b)\<^sup>2 + (vec_y c - vec_y b)\<^sup>2 + (vec_z c - vec_z b)\<^sup>2)"
    unfolding sq [of "vec_x a"] sq [of "vec_y a"] sq [of "vec_z a"]
      sq [of "vec_x c"] sq [of "vec_y c"] sq [of "vec_z c"] assms
    by (simp add: power_mult_distrib distrib_left)
  then show ?thesis
    by (simp add: distanceTo_def real_sqrt_mult)
qed

lemma distanceTo_pos: "a \<noteq> b \<Longrightarrow> 0 < distanceTo a b"
proof -
  assume "a \<noteq> b"
  then have "vec_x a \<noteq> vec_x b \<or> vec_y a \<noteq> vec_y b \<or> vec_z a \<noteq> vec_z b"
    by (auto simp add: Vector3.equality)
  then have "0 < (vec_x a - vec_x b)\<^sup>2 + (vec_y a - vec_y b)\<^sup>2 + (vec_z a - vec_z b)\<^sup>2"
    by (auto simp add: sum_power2_gt_zero_iff add_pos_nonneg add_nonneg_pos)
  then show ?thesis
    by (simp add: distanceTo_def)
qed

lemma distanceTo_self: "distanceTo a a = 0"
  by (simp add: distanceTo_def)

lemma frames_distance:
  assumes "position (camera s) \<noteq> targetCameraPos s"
  shows "distanceTo (cam_pos ((useFrame ^^ n) s)) (target s)
           = 0.98 ^ n * distanceTo (cam_pos s) (target s)"
  using distanceTo_scaled [of "target s" "cam_pos ((useFrame ^^ n) s)" "0.98 ^ n" "cam_pos s"]
    frames_residual [OF assms, of n]
  by simp

section \<open>Properties\<close>

text \<open>
  C1. With the target fixed and the camera not on it, one frame replaces the position by
  \<open>lerp(position, target, 0.02)\<close> and strictly reduces the distance to the target. This
  holds for every number of frames: after \<open>n\<close> frames the distance is \<open>0.98 ^ n\<close> times
  the first one, each new position lies between the previous position and the target on every
  axis (no overshoot, no oscillation), the position never equals the target, and the distance
  tends to zero. Numbers are exact reals here, as the claim asks.
\<close>

theorem frame_lerp_converges:
  assumes "cam_pos s \<noteq> target s"
  shows "target (useFrame s) = target s \<and>
         cam_pos (useFrame s) = lerp (cam_pos s) (target s) 0.02 \<and>
         distanceTo (cam_pos (useFrame s)) (target s) < distanceTo (cam_pos s) (target s) \<and>
         (\<forall>n. target ((useFrame ^^ n) s) = target s \<and>
              cam_pos ((useFrame ^^ n) s) \<noteq> target s \<and>
              distanceTo (cam_pos ((useFrame ^^ Suc n) s)) (target s)
                < distanceTo (cam_pos ((useFrame ^^ n) s)) (target s) \<and>
              distanceTo (cam_pos ((useFrame ^^ n) s)) (target s)
                = 0.98 ^ n * distanceTo (cam_pos s) (target s) \<and>
              on_the_way (cam_pos ((useFrame ^^ n) s)) (target s)
                (cam_pos ((useFrame ^^ Suc n) s))) \<and>
         (\<lambda>n. distanceTo (cam_pos ((useFrame ^^ n) s)) (target s)) \<longlonglongrightarrow> 0"
proof -
  have ne: "position (camera s) \<noteq> targetCameraPos s"
    using assms by (auto simp add: cam_pos_def target_def)
  have d0: "0 < distanceTo (cam_pos s) (target s)"
    using assms by (rule distanceTo_pos)
  have dn: "distanceTo (cam_pos ((useFrame ^^ n) s)) (target s)
              = 0.98 ^ n * distanceTo (cam_pos s) (target s)" for n
    by (rule frames_distance [OF ne])
  have pos: "0 < distanceTo (cam_pos ((useFrame ^^ n) s)) (target s)" for n
    unfolding dn using d0 by simp
  have tn: "target ((useFrame ^^ n) s) = target s" for n
    using frames_target [OF ne] by simp
  have neq: "cam_pos ((useFrame ^^ n) s) \<noteq> target s" for n
    using pos [of n] distanceTo_self [of "target s"] by auto
  have less: "distanceTo (cam_pos ((useFrame ^^ Suc n) s)) (target s)
                < distanceTo (cam_pos ((useFrame ^^ n) s)) (target s)" for n
  proof -
    have "distanceTo (cam_pos ((useFrame ^^ Suc n) s)) (target s)
            = 0.98 * distanceTo (cam_pos ((useFrame ^^ n) s)) (target s)"
      unfolding dn by simp
    then show ?thesis
      using pos [of n] by simp
  qed
  have way: "on_the_way (cam_pos ((useFrame ^^ n) s)) (target s)
               (cam_pos ((useFrame ^^ Suc n) s))" for n
    using on_the_way_lerp [of "cam_pos ((useFrame ^^ n) s)" "target s"]
    by (simp add: cam_pos_useFrame tn)
  have one: "distanceTo (cam_pos (useFrame s)) (target s) < distanceTo (cam_pos s) (target s)"
    using less [of 0] by simp
  have "(\<lambda>n. (0.98::real) ^ n) \<longlonglongrightarrow> 0"
    by (rule LIMSEQ_realpow_zero) simp_all
  then have "(\<lambda>n. 0.98 ^ n * distanceTo (cam_pos s) (target s)) \<longlonglongrightarrow> 0"
    by (rule tendsto_mult_left_zero)
  then have lim: "(\<lambda>n. distanceTo (cam_pos ((useFrame ^^ n) s)) (target s)) \<longlonglongrightarrow> 0"
    by (simp only: dn)
  show ?thesis
    using target_useFrame [OF ne] cam_pos_useFrame [of s] one tn neq less dn way lim
    by blast
qed

theorem frame_lerp_converges_witness:
  "cam_pos (run [Wheel \<lparr>deltaY = 1\<rparr>]
      (Scene \<lparr>eul_x = 0, eul_y = 0, eul_z = 0\<rparr> \<lparr>width = 800, height = 600\<rparr>))
     \<noteq> target (run [Wheel \<lparr>deltaY = 1\<rparr>]
      (Scene \<lparr>eul_x = 0, eul_y = 0, eul_z = 0\<rparr> \<lparr>width = 800, height = 600\<rparr>)) \<and>
   cam_pos (useFrame (run [Wheel \<lparr>deltaY = 1\<rparr>]
      (Scene \<lparr>eul_x = 0, eul_y = 0, eul_z = 0\<rparr> \<lparr>width = 800, height = 600\<rparr>)))
     = \<lparr>vec_x = 7, vec_y = 338670691978261299 / 450359962737049600, vec_z = 1\<rparr> \<and>
   distanceTo (cam_pos (useFrame (run [Wheel \<lparr>deltaY = 1\<rparr>]
      (Scene \<lparr>eul_x = 0, eul_y = 0, eul_z = 0\<rparr> \<lparr>width = 800, height = 600\<rparr>))))
     (target (run [Wheel \<lparr>deltaY = 1\<rparr>]
      (Scene \<lparr>eul_x = 0, eul_y = 0, eul_z = 0\<rparr> \<lparr>width = 800, height = 600\<rparr>)))
   < distanceTo (cam_pos (run [Wheel \<lparr>deltaY = 1\<rparr>]
      (Scene \<lparr>eul_x = 0, eul_y = 0, eul_z = 0\<rparr> \<lparr>width = 800, height = 600\<rparr>)))
     (target (run [Wheel \<lparr>deltaY = 1\<rparr>]
      (Scene \<lparr>eul_x = 0, eul_y = 0, eul_z = 0\<rparr> \<lparr>width = 800, height = 600\<rparr>)))"
proof -
  have c: "cam_pos (run [Wheel \<lparr>deltaY = 1\<rparr>]
      (Scene \<lparr>eul_x = 0, eul_y = 0, eul_z = 0\<rparr> \<lparr>width = 800, height = 600\<rparr>))
     = \<lparr>vec_x = 7, vec_y = 0.75, vec_z = 1\<rparr>"
    by (simp add: cam_pos_def Scene_def CameraRig_def empty_heap_def handleWheel_def lib_defs)
  have t: "target (run [Wheel \<lparr>deltaY = 1\<rparr>]
      (Scene \<lparr>eul_x = 0, eul_y = 0, eul_z = 0\<rparr> \<lparr>width = 800, height = 600\<rparr>))
     = \<lparr>vec_x = 7, vec_y = 7656119366529843 / 9007199254740992, vec_z = 1\<rparr>"
    by (simp add: target_wheel_down target_Scene scroll_1)
  have h: "cam_pos (run [Wheel \<lparr>deltaY = 1\<rparr>]
      (Scene \<lparr>eul_x = 0, eul_y = 0, eul_z = 0\<rparr> \<lparr>width = 800, height = 600\<rparr>))
     \<noteq> target (run [Wheel \<lparr>deltaY = 1\<rparr>]
      (Scene \<lparr>eul_x = 0, eul_y = 0, eul_z = 0\<rparr> \<lparr>width = 800, height = 600\<rparr>))"
    unfolding c t by simp
  have v: "lerp \<lparr>vec_x = 7, vec_y = 0.75, vec_z = 1\<rparr>
             \<lparr>vec_x = 7, vec_y = 7656119366529843 / 9007199254740992, vec_z = 1\<rparr> 0.02
             = \<lparr>vec_x = 7, vec_y = 338670691978261299 / 450359962737049600, vec_z = 1\<rparr>"
    by (simp add: lerp_def)
  show ?thesis
    using h frame_lerp_converges [OF h] c t v by metis
qed

text \<open>
  C2 as stated does not hold: the sum is a double addition and is rounded. Four downward
  scrolls from the mounted scene, where the target is \<open>(7, 0.75, 1)\<close>, leave in the \<open>y\<close>
  of the target the double \<open>1.1500000000000001\<close> and not \<open>0.75 + 0.1 * 4\<close>.
\<close>

theorem wheel_down_exact_counterexample:
  "vec_y (target (wheels [\<lparr>deltaY = 1\<rparr>, \<lparr>deltaY = 1\<rparr>, \<lparr>deltaY = 1\<rparr>, \<lparr>deltaY = 1\<rparr>]
      (Scene \<lparr>eul_x = 0, eul_y = 0, eul_z = 0\<rparr> \<lparr>width = 800, height = 600\<rparr>)))
     \<noteq> vec_y (target (Scene \<lparr>eul_x = 0, eul_y = 0, eul_z = 0\<rparr> \<lparr>width = 800, height = 600\<rparr>)) + 0.1 * 4"
proof -
  have "vec_y (target (wheels [\<lparr>deltaY = 1\<rparr>, \<lparr>deltaY = 1\<rparr>, \<lparr>deltaY = 1\<rparr>, \<lparr>deltaY = 1\<rparr>]
      (Scene \<lparr>eul_x = 0, eul_y = 0, eul_z = 0\<rparr> \<lparr>width = 800, height = 600\<rparr>)))
     = 5179139571476071 / 4503599627370496"
    by (simp add: target_wheel_down target_Scene scroll_1 scroll_2 scroll_3 scroll_4)
  then show ?thesis
    by (simp add: target_Scene)
qed

text \<open>
  C2, amended. A wheel event with positive \<open>deltaY\<close> replaces the \<open>y\<close> of the target by the
  double nearest to the sum of its value before the event and the double \<open>0.1\<close>, and leaves
  \<open>x\<close> and \<open>z\<close>; a run of \<open>N\<close> such events applies this rounded addition \<open>N\<close> times in
  turn and leaves \<open>x\<close> and \<open>z\<close>; three downward scrolls from \<open>(7, 0.75, 1)\<close> give
  \<open>(7, 1.05, 1)\<close>, where \<open>1.05\<close> is the double of that literal; and the growth has a
  bound: from a \<open>y\<close> of at most \<open>2 ^ 50\<close> no run of downward scrolls takes \<open>y\<close> above
  \<open>2 ^ 50\<close>, and at \<open>y = 2 ^ 50\<close>, where doubles are a quarter apart, the event leaves
  \<open>y\<close> as it is.
\<close>

theorem wheel_down_raises_target:
  "(0 < deltaY e \<longrightarrow>
      vec_x (target (handleWheel e s)) = vec_x (target s) \<and>
      vec_y (target (handleWheel e s)) = fl (vec_y (target s) + fl 0.1) \<and>
      vec_z (target (handleWheel e s)) = vec_z (target s)) \<and>
   ((\<forall>e \<in> set es. 0 < deltaY e) \<longrightarrow>
      vec_x (target (wheels es s)) = vec_x (target s) \<and>
      vec_y (target (wheels es s)) = (scroll_step ^^ length es) (vec_y (target s)) \<and>
      vec_z (target (wheels es s)) = vec_z (target s)) \<and>
   (target s = \<lparr>vec_x = 7, vec_y = 0.75, vec_z = 1\<rparr> \<longrightarrow>
      target (wheels [\<lparr>deltaY = 1\<rparr>, \<lparr>deltaY = 1\<rparr>, \<lparr>deltaY = 1\<rparr>] s)
        = \<lparr>vec_x = 7, vec_y = fl 1.05, vec_z = 1\<rparr>) \<and>
   ((\<forall>e \<in> set es. 0 < deltaY e) \<and> vec_y (target s) \<le> 2 ^ 50 \<longrightarrow>
      vec_y (target (wheels es s)) \<le> 2 ^ 50) \<and>
   (0 < deltaY e \<and> vec_y (target s) = 2 ^ 50 \<longrightarrow>
      vec_y (target (handleWheel e s)) = 2 ^ 50)"
proof -
  have one: "0 < deltaY e \<longrightarrow>
      vec_x (target (handleWheel e s)) = vec_x (target s) \<and>
      vec_y (target (handleWheel e s)) = fl (vec_y (target s) + fl 0.1) \<and>
      vec_z (target (handleWheel e s)) = vec_z (target s)"
    by (simp add: target_wheel_down scroll_step_def)
  have many: "(\<forall>e \<in> set es. 0 < deltaY e) \<longrightarrow>
      vec_x (target (wheels es s)) = vec_x (target s) \<and>
      vec_y (target (wheels es s)) = (scroll_step ^^ length es) (vec_y (target s)) \<and>
      vec_z (target (wheels es s)) = vec_z (target s)"
    by (simp add: target_wheels_down)
  have three: "target (wheels [\<lparr>deltaY = 1\<rparr>, \<lparr>deltaY = 1\<rparr>, \<lparr>deltaY = 1\<rparr>] s)
        = \<lparr>vec_x = 7, vec_y = fl 1.05, vec_z = 1\<rparr>"
    if "target s = \<lparr>vec_x = 7, vec_y = 0.75, vec_z = 1\<rparr>"
    using that by (simp add: target_wheel_down scroll_1 scroll_2 scroll_3 fl_21_20)
  have stuck: "vec_y (target (handleWheel e s)) = 2 ^ 50"
    if "0 < deltaY e" and "vec_y (target s) = 2 ^ 50"
    using that scroll_stuck by (simp add: target_wheel_down)
  have cap: "vec_y (target (wheels es s)) \<le> 2 ^ 50"
    if "\<forall>e \<in> set es. 0 < deltaY e" and "vec_y (target s) \<le> 2 ^ 50"
  proof -
    have "vec_y (target (wheels es s)) = (scroll_step ^^ length es) (vec_y (target s))"
      using that(1) by (simp add: target_wheels_down)
    then show ?thesis
      using scroll_steps_cap [OF that(2), of "length es"] by (simp only:)
  qed
  show ?thesis
    using one many three cap stuck by blast
qed

theorem wheel_down_raises_target_witness:
  "0 < deltaY \<lparr>deltaY = 1\<rparr> \<and>
   target (Scene \<lparr>eul_x = 0, eul_y = 0, eul_z = 0\<rparr> \<lparr>width = 800, height = 600\<rparr>)
     = \<lparr>vec_x = 7, vec_y = 0.75, vec_z = 1\<rparr> \<and>
   vec_y (target (handleWheel \<lparr>deltaY = 1\<rparr>
      (Scene \<lparr>eul_x = 0, eul_y = 0, eul_z = 0\<rparr> \<lparr>width = 800, height = 600\<rparr>)))
     = 7656119366529843 / 9007199254740992 \<and>
   target (wheels [\<lparr>deltaY = 1\<rparr>, \<lparr>deltaY = 1\<rparr>, \<lparr>deltaY = 1\<rparr>]
      (Scene \<lparr>eul_x = 0, eul_y = 0, eul_z = 0\<rparr> \<lparr>width = 800, height = 600\<rparr>))
     = \<lparr>vec_x = 7, vec_y = 4728779608739021 / 4503599627370496, vec_z = 1\<rparr> \<and>
   vec_y (target (CameraRig \<lparr>position = 0, rotation = 0\<rparr> \<lparr>width = 800, height = 600\<rparr>
      (snd (new_Euler \<lparr>eul_x = 0, eul_y = 0, eul_z = 0\<rparr>
        (snd (new_Vector3 \<lparr>vec_x = 7, vec_y = 2 ^ 50, vec_z = 1\<rparr> empty_heap)))))) = 2 ^ 50 \<and>
   vec_y (target (handleWheel \<lparr>deltaY = 1\<rparr> (CameraRig \<lparr>position = 0, rotation = 0\<rparr> \<lparr>width = 800, height = 600\<rparr>
      (snd (new_Euler \<lparr>eul_x = 0, eul_y = 0, eul_z = 0\<rparr>
        (snd (new_Vector3 \<lparr>vec_x = 7, vec_y = 2 ^ 50, vec_z = 1\<rparr> empty_heap))))))) = 2 ^ 50"
proof -
  have p: "0 < deltaY \<lparr>deltaY = 1\<rparr>"
    by simp
  have t: "target (Scene \<lparr>eul_x = 0, eul_y = 0, eul_z = 0\<rparr> \<lparr>width = 800, height = 600\<rparr>)
     = \<lparr>vec_x = 7, vec_y = 0.75, vec_z = 1\<rparr>"
    by (rule target_Scene)
  have y: "fl (vec_y \<lparr>vec_x = 7, vec_y = 0.75, vec_z = 1\<rparr> + fl 0.1) = 7656119366529843 / 9007199254740992"
    using scroll_1 by (simp add: scroll_step_def)
  have h: "vec_y (target (CameraRig \<lparr>position = 0, rotation = 0\<rparr> \<lparr>width = 800, height = 600\<rparr>
      (snd (new_Euler \<lparr>eul_x = 0, eul_y = 0, eul_z = 0\<rparr>
        (snd (new_Vector3 \<lparr>vec_x = 7, vec_y = 2 ^ 50, vec_z = 1\<rparr> empty_heap)))))) = 2 ^ 50"
    by (simp add: target_def CameraRig_def empty_heap_def lib_defs)
  show ?thesis
    using p t y h fl_1_05
      wheel_down_raises_target [of "\<lparr>deltaY = 1\<rparr>"
        "(Scene \<lparr>eul_x = 0, eul_y = 0, eul_z = 0\<rparr> \<lparr>width = 800, height = 600\<rparr>)"
        "[\<lparr>deltaY = 1\<rparr>, \<lparr>deltaY = 1\<rparr>, \<lparr>deltaY = 1\<rparr>]"]
      wheel_down_raises_target [of "\<lparr>deltaY = 1\<rparr>"
        "(CameraRig \<lparr>position = 0, rotation = 0\<rparr> \<lparr>width = 800, height = 600\<rparr>
      (snd (new_Euler \<lparr>eul_x = 0, eul_y = 0, eul_z = 0\<rparr>
        (snd (new_Vector3 \<lparr>vec_x = 7, vec_y = 2 ^ 50, vec_z = 1\<rparr> empty_heap)))))" "[]"]
    by metis
qed

text \<open>
  C3. A wheel event with negative \<open>deltaY\<close> sets the target to the value of the origin,
  whatever the target was. In every state the mounted scene reaches that value is
  \<open>(7, 0.75, 1)\<close>, and the handler leaves the camera alone: its position, its rotation
  and the objects it refers to are the ones before the event.
\<close>

theorem wheel_up_resets_target:
  assumes "deltaY e < 0"
  shows "target (handleWheel e s) = origin s \<and>
         (s = run evs (Scene rot sz) \<longrightarrow>
            target (handleWheel e s) = \<lparr>vec_x = 7, vec_y = 0.75, vec_z = 1\<rparr> \<and>
            cam_pos (handleWheel e s) = cam_pos s \<and>
            cam_rot (handleWheel e s) = cam_rot s \<and>
            camera (handleWheel e s) = camera s)"
proof -
  have t: "target (handleWheel e s) = origin s"
    using assms by (rule target_wheel_up)
  have c: "camera (handleWheel e s) = camera s"
    using camera_step [of "Wheel e" s] by simp
  have "target (handleWheel e s) = \<lparr>vec_x = 7, vec_y = 0.75, vec_z = 1\<rparr> \<and>
        cam_pos (handleWheel e s) = cam_pos s"
    if "s = run evs (Scene rot sz)"
    using that t by (simp add: origin_reach cam_pos_handleWheel rig_inv_reach)
  then show ?thesis
    using t c cam_rot_handleWheel [of e s] by blast
qed

theorem wheel_up_resets_target_witness:
  "deltaY \<lparr>deltaY = - 1\<rparr> < 0 \<and>
   target (handleWheel \<lparr>deltaY = - 1\<rparr>
     (run [Wheel \<lparr>deltaY = 1\<rparr>, Wheel \<lparr>deltaY = 1\<rparr>, Wheel \<lparr>deltaY = 1\<rparr>, Frame]
        (Scene \<lparr>eul_x = 0, eul_y = 0, eul_z = 0\<rparr> \<lparr>width = 800, height = 600\<rparr>)))
     = \<lparr>vec_x = 7, vec_y = 0.75, vec_z = 1\<rparr>"
proof -
  have up: "deltaY \<lparr>deltaY = - 1\<rparr> < 0"
    by simp
  show ?thesis
    using up wheel_up_resets_target [OF up,
      of "run [Wheel \<lparr>deltaY = 1\<rparr>, Wheel \<lparr>deltaY = 1\<rparr>, Wheel \<lparr>deltaY = 1\<rparr>, Frame]
            (Scene \<lparr>eul_x = 0, eul_y = 0, eul_z = 0\<rparr> \<lparr>width = 800, height = 600\<rparr>)"
         "[Wheel \<lparr>deltaY = 1\<rparr>, Wheel \<lparr>deltaY = 1\<rparr>, Wheel \<lparr>deltaY = 1\<rparr>, Frame]"
         "\<lparr>eul_x = 0, eul_y = 0, eul_z = 0\<rparr>" "\<lparr>width = 800, height = 600\<rparr>"]
    by blast
qed

text \<open>
  C4. In every state the mounted scene reaches, a frame sets \<open>rotation.y\<close> to
  \<open>baseline.y - mouse.x * 0.035\<close> and \<open>rotation.x\<close> to \<open>baseline.x - mouse.y * 0.025\<close>;
  the baseline is the rotation captured at mount and the frame changes neither it nor the
  pointer state; a second frame leaves the rotation of the first (no accumulation); and with
  the pointer state \<open>(0, 0)\<close> the rotation is the baseline.
\<close>

theorem frame_rotation:
  assumes "s = run evs (Scene rot sz)"
  shows "eul_y (cam_rot (useFrame s)) = eul_y (baseline s) - mouse_x (mouse s) * 0.035 \<and>
         eul_x (cam_rot (useFrame s)) = eul_x (baseline s) - mouse_y (mouse s) * 0.025 \<and>
         baseline (useFrame s) = baseline s \<and> baseline s = rot \<and>
         mouse (useFrame s) = mouse s \<and>
         cam_rot (useFrame (useFrame s)) = cam_rot (useFrame s) \<and>
         (mouse s = \<lparr>mouse_x = 0, mouse_y = 0\<rparr> \<longrightarrow> cam_rot (useFrame s) = baseline s)"
proof -
  have inv: "rig_inv s" and inv': "rig_inv (useFrame s)"
    using assms rig_inv_reach rig_inv_useFrame by simp_all
  have ne: "rotation (camera s) \<noteq> initialRotation s"
    using inv by (simp add: rig_inv_def)
  have ne': "rotation (camera (useFrame s)) \<noteq> initialRotation (useFrame s)"
    using inv' by (simp add: rig_inv_def)
  have z: "eul_z (cam_rot s) = eul_z (baseline s)"
    using assms by (simp add: rot_z_reach baseline_reach)
  have twice: "cam_rot (useFrame (useFrame s)) = cam_rot (useFrame s)"
    by (simp add: cam_rot_useFrame [OF ne'] cam_rot_useFrame [OF ne]
        baseline_useFrame [OF ne] mouse_useFrame)
  have zero: "cam_rot (useFrame s) = baseline s" if "mouse s = \<lparr>mouse_x = 0, mouse_y = 0\<rparr>"
    using that z by (simp add: cam_rot_useFrame [OF ne])
  have y: "eul_y (cam_rot (useFrame s)) = eul_y (baseline s) - mouse_x (mouse s) * 0.035"
    and x: "eul_x (cam_rot (useFrame s)) = eul_x (baseline s) - mouse_y (mouse s) * 0.025"
    by (simp_all add: cam_rot_useFrame [OF ne])
  have b: "baseline s = rot"
    unfolding assms by (rule baseline_reach)
  show ?thesis
    using x y b twice zero baseline_useFrame [OF ne] mouse_useFrame [of s] by blast
qed

theorem frame_rotation_witness:
  "mouse (run [PointerMove \<lparr>clientX = 400, clientY = 300\<rparr>]
      (Scene \<lparr>eul_x = 0.1, eul_y = 1.4, eul_z = 0\<rparr> \<lparr>width = 800, height = 600\<rparr>))
     = \<lparr>mouse_x = 0, mouse_y = 0\<rparr> \<and>
   cam_rot (useFrame (run [PointerMove \<lparr>clientX = 400, clientY = 300\<rparr>]
      (Scene \<lparr>eul_x = 0.1, eul_y = 1.4, eul_z = 0\<rparr> \<lparr>width = 800, height = 600\<rparr>)))
     = \<lparr>eul_x = 0.1, eul_y = 1.4, eul_z = 0\<rparr>"
proof -
  have m: "mouse (run [PointerMove \<lparr>clientX = 400, clientY = 300\<rparr>]
      (Scene \<lparr>eul_x = 0.1, eul_y = 1.4, eul_z = 0\<rparr> \<lparr>width = 800, height = 600\<rparr>))
     = \<lparr>mouse_x = 0, mouse_y = 0\<rparr>"
    by (simp add: handlePointerMove_def size_of_Scene)
  show ?thesis
    using m frame_rotation [OF refl,
        of "[PointerMove \<lparr>clientX = 400, clientY = 300\<rparr>]"
           "\<lparr>eul_x = 0.1, eul_y = 1.4, eul_z = 0\<rparr>" "\<lparr>width = 800, height = 600\<rparr>"]
    by metis
qed

text \<open>
  C5. A pointer-move event replaces the pointer state and changes nothing else; the new
  value does not depend on the old one. For a viewport of positive width the new \<open>x\<close> is
  \<open>(clientX / width) * 2 - 1\<close>, \<open>clientX\<close> between \<open>0\<close> and the width gives an \<open>x\<close>
  between \<open>-1\<close> and \<open>1\<close>, \<open>clientX = 0\<close> gives \<open>-1\<close> and \<open>clientX = width\<close> gives
  \<open>1\<close>; the same holds for \<open>clientY\<close>, a positive height and \<open>y\<close>.
\<close>

theorem pointer_move_normalises:
  "handlePointerMove e s = s\<lparr>mouse := mouse (handlePointerMove e s)\<rparr> \<and>
   mouse (handlePointerMove e (s\<lparr>mouse := m\<rparr>)) = mouse (handlePointerMove e s) \<and>
   (0 < width (size_of s) \<longrightarrow>
      mouse_x (mouse (handlePointerMove e s)) = (clientX e / width (size_of s)) * 2 - 1 \<and>
      (0 \<le> clientX e \<and> clientX e \<le> width (size_of s) \<longrightarrow>
         - 1 \<le> mouse_x (mouse (handlePointerMove e s)) \<and>
         mouse_x (mouse (handlePointerMove e s)) \<le> 1) \<and>
      (clientX e = 0 \<longrightarrow> mouse_x (mouse (handlePointerMove e s)) = - 1) \<and>
      (clientX e = width (size_of s) \<longrightarrow> mouse_x (mouse (handlePointerMove e s)) = 1)) \<and>
   (0 < height (size_of s) \<longrightarrow>
      mouse_y (mouse (handlePointerMove e s)) = (clientY e / height (size_of s)) * 2 - 1 \<and>
      (0 \<le> clientY e \<and> clientY e \<le> height (size_of s) \<longrightarrow>
         - 1 \<le> mouse_y (mouse (handlePointerMove e s)) \<and>
         mouse_y (mouse (handlePointerMove e s)) \<le> 1) \<and>
      (clientY e = 0 \<longrightarrow> mouse_y (mouse (handlePointerMove e s)) = - 1) \<and>
      (clientY e = height (size_of s) \<longrightarrow> mouse_y (mouse (handlePointerMove e s)) = 1))"
proof -
  have rep: "handlePointerMove e s = s\<lparr>mouse := mouse (handlePointerMove e s)\<rparr>"
    by (simp add: handlePointerMove_def)
  have pure: "mouse (handlePointerMove e (s\<lparr>mouse := m\<rparr>)) = mouse (handlePointerMove e s)"
    by (simp add: handlePointerMove_def)
  have fx: "mouse_x (mouse (handlePointerMove e s)) = (clientX e / width (size_of s)) * 2 - 1"
    and fy: "mouse_y (mouse (handlePointerMove e s)) = (clientY e / height (size_of s)) * 2 - 1"
    by (simp_all add: handlePointerMove_def)
  have x0: "clientX e = 0 \<longrightarrow> mouse_x (mouse (handlePointerMove e s)) = - 1"
    and y0: "clientY e = 0 \<longrightarrow> mouse_y (mouse (handlePointerMove e s)) = - 1"
    by (simp_all add: handlePointerMove_def)
  have x1: "clientX e = width (size_of s) \<longrightarrow> mouse_x (mouse (handlePointerMove e s)) = 1"
    if "0 < width (size_of s)"
    using that by (simp add: handlePointerMove_def)
  have y1: "clientY e = height (size_of s) \<longrightarrow> mouse_y (mouse (handlePointerMove e s)) = 1"
    if "0 < height (size_of s)"
    using that by (simp add: handlePointerMove_def)
  show ?thesis
    using rep pure fx fy x0 y0 x1 y1 mouse_x_range [of s e] mouse_y_range [of s e] by blast
qed

theorem pointer_move_normalises_witness:
  "0 < width (size_of (Scene \<lparr>eul_x = 0, eul_y = 0, eul_z = 0\<rparr> \<lparr>width = 800, height = 600\<rparr>)) \<and>
   0 < height (size_of (Scene \<lparr>eul_x = 0, eul_y = 0, eul_z = 0\<rparr> \<lparr>width = 800, height = 600\<rparr>)) \<and>
   clientX \<lparr>clientX = 800, clientY = 0\<rparr>
     = width (size_of (Scene \<lparr>eul_x = 0, eul_y = 0, eul_z = 0\<rparr> \<lparr>width = 800, height = 600\<rparr>)) \<and>
   clientY \<lparr>clientX = 800, clientY = 0\<rparr> = 0 \<and>
   mouse_x (mouse (handlePointerMove \<lparr>clientX = 800, clientY = 0\<rparr>
      (Scene \<lparr>eul_x = 0, eul_y = 0, eul_z = 0\<rparr> \<lparr>width = 800, height = 600\<rparr>))) = 1 \<and>
   mouse_y (mouse (handlePointerMove \<lparr>clientX = 800, clientY = 0\<rparr>
      (Scene \<lparr>eul_x = 0, eul_y = 0, eul_z = 0\<rparr> \<lparr>width = 800, height = 600\<rparr>))) = - 1"
  using pointer_move_normalises [of "\<lparr>clientX = 800, clientY = 0\<rparr>"
      "Scene \<lparr>eul_x = 0, eul_y = 0, eul_z = 0\<rparr> \<lparr>width = 800, height = 600\<rparr>"
      "\<lparr>mouse_x = 0, mouse_y = 0\<rparr>"]
  by (simp add: size_of_Scene)

text \<open>
  C6 as stated does not hold: after four downward scrolls from the mounted scene the \<open>y\<close> of
  the target is the double \<open>1.1500000000000001\<close>, which is \<open>0.75 + 0.1 * k\<close> for no \<open>k\<close>.
\<close>

theorem target_shift_counterexample:
  "\<not> (\<exists>k. target (run [Wheel \<lparr>deltaY = 1\<rparr>, Wheel \<lparr>deltaY = 1\<rparr>, Wheel \<lparr>deltaY = 1\<rparr>, Wheel \<lparr>deltaY = 1\<rparr>]
      (Scene \<lparr>eul_x = 0, eul_y = 0, eul_z = 0\<rparr> \<lparr>width = 800, height = 600\<rparr>))
     = \<lparr>vec_x = 7, vec_y = 0.75 + 0.1 * real k, vec_z = 1\<rparr>)"
proof
  assume "\<exists>k. target (run [Wheel \<lparr>deltaY = 1\<rparr>, Wheel \<lparr>deltaY = 1\<rparr>, Wheel \<lparr>deltaY = 1\<rparr>, Wheel \<lparr>deltaY = 1\<rparr>]
      (Scene \<lparr>eul_x = 0, eul_y = 0, eul_z = 0\<rparr> \<lparr>width = 800, height = 600\<rparr>))
     = \<lparr>vec_x = 7, vec_y = 0.75 + 0.1 * real k, vec_z = 1\<rparr>"
  then obtain k where "target (run [Wheel \<lparr>deltaY = 1\<rparr>, Wheel \<lparr>deltaY = 1\<rparr>, Wheel \<lparr>deltaY = 1\<rparr>, Wheel \<lparr>deltaY = 1\<rparr>]
      (Scene \<lparr>eul_x = 0, eul_y = 0, eul_z = 0\<rparr> \<lparr>width = 800, height = 600\<rparr>))
     = \<lparr>vec_x = 7, vec_y = 0.75 + 0.1 * real k, vec_z = 1\<rparr>"
    by blast
  then have y: "5179139571476071 / 4503599627370496 = 3 / 4 + real k / 10"
    by (simp add: target_wheel_down target_Scene scroll_1 scroll_2 scroll_3 scroll_4)
  then have "3 < real k" and "real k < 5"
    by linarith+
  then have k: "k = 4"
    by linarith
  have "(5179139571476071 :: real) / 4503599627370496 \<noteq> 3 / 4 + real (4 :: nat) / 10"
    by simp
  then show False
    using y unfolding k by blast
qed

text \<open>
  C6, amended. In every state the mounted scene reaches, the target has the \<open>x\<close> and the
  \<open>z\<close> of the origin \<open>(7, 0.75, 1)\<close>, and its \<open>y\<close> is the \<open>y\<close> of the origin after \<open>k\<close>
  scroll steps for some natural number \<open>k\<close>, a scroll step being the rounded double addition
  of \<open>0.1\<close>; that \<open>y\<close> never exceeds \<open>2 ^ 50\<close>.
\<close>

theorem target_is_origin_shifted:
  "\<exists>k. target (run evs (Scene rot sz))
          = \<lparr>vec_x = 7, vec_y = (scroll_step ^^ k) 0.75, vec_z = 1\<rparr> \<and>
        origin (run evs (Scene rot sz)) = \<lparr>vec_x = 7, vec_y = 0.75, vec_z = 1\<rparr> \<and>
        vec_x (target (run evs (Scene rot sz))) = vec_x (origin (run evs (Scene rot sz))) \<and>
        vec_z (target (run evs (Scene rot sz))) = vec_z (origin (run evs (Scene rot sz))) \<and>
        vec_y (target (run evs (Scene rot sz))) \<le> 2 ^ 50"
proof -
  have "target (Scene rot sz) = shifted (origin (Scene rot sz)) 0"
    by (simp add: target_Scene origin_Scene shifted_def)
  then obtain j where "target (run evs (Scene rot sz)) = shifted (origin (run evs (Scene rot sz))) j"
    using shifted_run [OF rig_inv_Scene] by blast
  then have "target (run evs (Scene rot sz))
      = \<lparr>vec_x = 7, vec_y = (scroll_step ^^ j) 0.75, vec_z = 1\<rparr>"
    by (simp add: origin_reach shifted_def)
  moreover have "(scroll_step ^^ j) 0.75 \<le> 2 ^ 50"
    by (rule scroll_steps_cap) simp
  ultimately show ?thesis
    by (auto simp add: origin_reach)
qed




text \<open>
  C8. A wheel event whose \<open>deltaY\<close> is exactly zero changes nothing: the state after the
  handler, store included, is the state before it.
\<close>

theorem wheel_zero_noop: "deltaY event = 0 \<Longrightarrow> handleWheel event s = s"
  by (simp add: handleWheel_def)

theorem wheel_zero_noop_witness:
  "deltaY \<lparr>deltaY = 0\<rparr> = 0 \<and>
   handleWheel \<lparr>deltaY = 0\<rparr> (Scene \<lparr>eul_x = 0, eul_y = 0, eul_z = 0\<rparr> \<lparr>width = 800, height = 600\<rparr>)
     = Scene \<lparr>eul_x = 0, eul_y = 0, eul_z = 0\<rparr> \<lparr>width = 800, height = 600\<rparr>"
  using wheel_zero_noop [of "\<lparr>deltaY = 0\<rparr>"
      "Scene \<lparr>eul_x = 0, eul_y = 0, eul_z = 0\<rparr> \<lparr>width = 800, height = 600\<rparr>"]
  by simp

text \<open>
  C9. In every state the mounted scene reaches, neither handler writes the camera: after a
  pointer-move event and after a wheel event the position and the rotation of the camera,
  and the objects the camera refers to, are unchanged. The pointer handler changes the
  field \<open>mouse\<close> only. The wheel handler changes the ref \<open>targetCameraPos\<close> and the store
  only, and in the store no Euler object and no vector allocated before the event.
\<close>

theorem handlers_leave_camera:
  assumes "s = run evs (Scene rot sz)"
  shows "cam_pos (handlePointerMove p s) = cam_pos s \<and>
         cam_rot (handlePointerMove p s) = cam_rot s \<and>
         camera (handlePointerMove p s) = camera s \<and>
         cam_pos (handleWheel w s) = cam_pos s \<and>
         cam_rot (handleWheel w s) = cam_rot s \<and>
         camera (handleWheel w s) = camera s \<and>
         handlePointerMove p s = s\<lparr>mouse := mouse (handlePointerMove p s)\<rparr> \<and>
         (handleWheel w s)\<lparr>heap := heap s, targetCameraPos := targetCameraPos s\<rparr> = s \<and>
         eulers (heap (handleWheel w s)) = eulers (heap s) \<and>
         (\<forall>a. a < vfree (heap s) \<longrightarrow> vectors (heap (handleWheel w s)) a = vectors (heap s) a)"
proof -
  have inv: "rig_inv s"
    unfolding assms by (rule rig_inv_reach)
  have pm: "handlePointerMove p s = s\<lparr>mouse := mouse (handlePointerMove p s)\<rparr>"
    by (simp add: handlePointerMove_def)
  show ?thesis
    using cam_pos_handlePointerMove [of p s] cam_rot_handlePointerMove [of p s]
      camera_step [of "PointerMove p" s] camera_step [of "Wheel w" s]
      cam_pos_handleWheel [OF inv, of w] cam_rot_handleWheel [of w s]
      pm wheel_frame [where w = w and s = s] wheel_eulers [where w = w and s = s] wheel_old_vectors [where s = s and w = w]
    by simp
qed

theorem handlers_leave_camera_witness:
  "cam_pos (handleWheel \<lparr>deltaY = 1\<rparr>
      (run [Wheel \<lparr>deltaY = 1\<rparr>, Frame]
        (Scene \<lparr>eul_x = 0, eul_y = 0, eul_z = 0\<rparr> \<lparr>width = 800, height = 600\<rparr>)))
     = \<lparr>vec_x = 7, vec_y = 338670691978261299 / 450359962737049600, vec_z = 1\<rparr> \<and>
   (0::nat) < vfree (heap (run [Wheel \<lparr>deltaY = 1\<rparr>, Frame]
        (Scene \<lparr>eul_x = 0, eul_y = 0, eul_z = 0\<rparr> \<lparr>width = 800, height = 600\<rparr>))) \<and>
   vectors (heap (handleWheel \<lparr>deltaY = 1\<rparr>
      (run [Wheel \<lparr>deltaY = 1\<rparr>, Frame]
        (Scene \<lparr>eul_x = 0, eul_y = 0, eul_z = 0\<rparr> \<lparr>width = 800, height = 600\<rparr>)))) 0
     = vectors (heap (run [Wheel \<lparr>deltaY = 1\<rparr>, Frame]
        (Scene \<lparr>eul_x = 0, eul_y = 0, eul_z = 0\<rparr> \<lparr>width = 800, height = 600\<rparr>))) 0"
proof -
  have v: "(0::nat) < vfree (heap (run [Wheel \<lparr>deltaY = 1\<rparr>, Frame]
        (Scene \<lparr>eul_x = 0, eul_y = 0, eul_z = 0\<rparr> \<lparr>width = 800, height = 600\<rparr>)))"
    by (simp add: Scene_def CameraRig_def empty_heap_def handleWheel_def useFrame_def lib_defs)
  have c: "cam_pos (run [Wheel \<lparr>deltaY = 1\<rparr>, Frame]
        (Scene \<lparr>eul_x = 0, eul_y = 0, eul_z = 0\<rparr> \<lparr>width = 800, height = 600\<rparr>))
     = \<lparr>vec_x = 7, vec_y = 338670691978261299 / 450359962737049600, vec_z = 1\<rparr>"
    by (simp add: cam_pos_def Scene_def CameraRig_def empty_heap_def handleWheel_def useFrame_def
        lib_defs lerp_def scroll_1 [unfolded scroll_step_def])
  show ?thesis
    using v c handlers_leave_camera [OF refl,
        of "\<lparr>clientX = 0, clientY = 0\<rparr>" "[Wheel \<lparr>deltaY = 1\<rparr>, Frame]"
           "\<lparr>eul_x = 0, eul_y = 0, eul_z = 0\<rparr>" "\<lparr>width = 800, height = 600\<rparr>" "\<lparr>deltaY = 1\<rparr>"]
    by metis
qed

text \<open>
  C10. A frame never writes the roll: \<open>rotation.z\<close> after a frame is \<open>rotation.z\<close> before
  it, in any state. In every state the mounted scene reaches, \<open>rotation.z\<close> of the camera
  and of the baseline is the one the camera had at mount, and the camera still refers to
  the same objects.
\<close>

theorem roll_never_written:
  "eul_z (cam_rot (useFrame s)) = eul_z (cam_rot s) \<and>
   eul_z (cam_rot (run evs (Scene rot sz))) = eul_z rot \<and>
   eul_z (baseline (run evs (Scene rot sz))) = eul_z rot \<and>
   camera (run evs (Scene rot sz)) = camera (Scene rot sz)"
  by (simp add: rot_z_useFrame rot_z_reach baseline_reach camera_run)

end
